theory Spec2Isabelle
  imports Complex_Main "HOL-Library.Log_Nat"
begin

section \<open>Data model of app.py\<close>

text \<open>
  The persisted state is the three SQLAlchemy tables of app.py: \<open>User\<close>,
  \<open>Generation\<close> and \<open>MobileUploadToken\<close>. A table is the list of its rows in
  primary-key order; \<open>query.filter_by(...).first()\<close> is \<open>find\<close> on that list and
  an assignment to the fields of the row it returned, followed by
  \<open>db.session.commit()\<close>, is \<open>update_first\<close>. The database value is the
  committed state: a request that raises before its commit leaves it as it was
  (Flask-SQLAlchemy drops the session when the request ends).

  Columns no modelled route reads or writes (\<open>password_hash\<close>, \<open>created_at\<close>,
  \<open>credits_reset_date\<close>, the autoincrement ids of generations and tokens) are left
  out. \<open>uid\<close> is \<open>User.id\<close>.
\<close>

datatype py_exception =
    ValueError string
  | KeyError
  | IndexError
  | TypeError
  | AttributeError
  | ExternalError string
  | CommitError

record user =
  uid :: nat
  email :: string
  generation_count :: "int option"
  is_subscribed :: bool
  stripe_customer_id :: "string option"
  plan_tier :: string
  credits_remaining :: int
  credits_limit :: int

record generation =
  user_id :: nat
  input_image_path :: string
  output_image_path :: string

record mobile_upload_token =
  token :: string
  used :: bool
  image_path :: "string option"
  token_user_id :: "nat option"

record database =
  users :: "user list"
  generations :: "generation list"
  tokens :: "mobile_upload_token list"

text \<open>What a route answers, and what it does outside the database.\<close>

datatype response =
    Redirect string
  | RenderIndex "string option" "py_exception option"
  | RenderMobileUpload bool
  | Plain string nat
  | Json bool nat
  | ServerError py_exception

datatype effect =
    FileSaved string
  | GenerateContent int int

fun update_first :: "('a \<Rightarrow> bool) \<Rightarrow> ('a \<Rightarrow> 'a) \<Rightarrow> 'a list \<Rightarrow> 'a list" where
  "update_first P f [] = []"
| "update_first P f (x # xs) = (if P x then f x # xs else x # update_first P f xs)"

text \<open>Python truthiness of a nullable string: \<open>None\<close> and \<open>""\<close> are false.\<close>

fun truthy :: "string option \<Rightarrow> bool" where
  "truthy None = False"
| "truthy (Some s) = (s \<noteq> [])"

text \<open>\<open>load_user\<close> (lines 133-135): the logged-in user is the row with the
  session's id; no session or no such row is the anonymous user.\<close>

definition load_user :: "database \<Rightarrow> nat option \<Rightarrow> user option" where
  "load_user db sid = (case sid of None \<Rightarrow> None | Some i \<Rightarrow> find (\<lambda>u. uid u = i) (users db))"

section \<open>Configuration (lines 26-87)\<close>

definition CREDITS_PER_IMAGE :: int where
  "CREDITS_PER_IMAGE = 500"

definition PLAN_CREDITS :: "(string \<times> int) list" where
  "PLAN_CREDITS =
     [(''free'', 10000), (''starter'', 120000), (''creator'', 300000),
      (''enterprise'', 800000), (''legacy_pro'', 200000)]"

text \<open>\<open>PLAN_CREDITS[tier]\<close>: a missing key raises.\<close>

definition plan_credits :: "string \<Rightarrow> py_exception + int" where
  "plan_credits tier = (case map_of PLAN_CREDITS tier of None \<Rightarrow> Inl KeyError | Some c \<Rightarrow> Inr c)"

text \<open>The six price ids come from the environment; they are parameters.\<close>

record stripe_config =
  STRIPE_PRICE_ID_STARTER :: string
  STRIPE_PRICE_ID_CREATOR :: string
  STRIPE_PRICE_ID_ENTERPRISE :: string
  STRIPE_PRICE_ID_STARTER_ANNUAL :: string
  STRIPE_PRICE_ID_CREATOR_ANNUAL :: string
  STRIPE_PRICE_ID_ENTERPRISE_ANNUAL :: string

text \<open>A dict literal: where two keys coincide the later entry wins.\<close>

definition PRICE_ID_TO_TIER :: "stripe_config \<Rightarrow> (string \<rightharpoonup> string)" where
  "PRICE_ID_TO_TIER cfg =
     Map.empty
       (STRIPE_PRICE_ID_STARTER cfg \<mapsto> ''starter'',
        STRIPE_PRICE_ID_CREATOR cfg \<mapsto> ''creator'',
        STRIPE_PRICE_ID_ENTERPRISE cfg \<mapsto> ''enterprise'',
        STRIPE_PRICE_ID_STARTER_ANNUAL cfg \<mapsto> ''starter'',
        STRIPE_PRICE_ID_CREATOR_ANNUAL cfg \<mapsto> ''creator'',
        STRIPE_PRICE_ID_ENTERPRISE_ANNUAL cfg \<mapsto> ''enterprise'')"

text \<open>\<open>PRICE_ID_TO_TIER.get(price_id, 'creator')\<close>, where \<open>price_id\<close> may be \<open>None\<close>.\<close>

definition tier_of_price :: "stripe_config \<Rightarrow> string option \<Rightarrow> string" where
  "tier_of_price cfg price_id =
     (case price_id of
        None \<Rightarrow> ''creator''
      | Some p \<Rightarrow> (case PRICE_ID_TO_TIER cfg p of None \<Rightarrow> ''creator'' | Some t \<Rightarrow> t))"

text \<open>The user row \<open>signup\<close> adds (lines 242-248), with the column defaults.\<close>

definition signup_user :: "nat \<Rightarrow> string \<Rightarrow> py_exception + user" where
  "signup_user i em =
     (case plan_credits ''free'' of
        Inl e \<Rightarrow> Inl e
      | Inr c \<Rightarrow>
          Inr \<lparr>uid = i, email = em, generation_count = Some 0, is_subscribed = False,
               stripe_customer_id = None, plan_tier = ''free'',
               credits_remaining = c, credits_limit = c\<rparr>)"

text \<open>
  Library functions the routes call on file names (\<open>werkzeug.utils.secure_filename\<close>,
  \<open>os.path.splitext\<close>) are parameters. \<open>os.path.join\<close> is the POSIX one for a
  relative second component, and \<open>slashes\<close> is \<open>.replace("\\", "/")\<close>.
\<close>

record env =
  secure_filename :: "string \<Rightarrow> string"
  splitext :: "string \<Rightarrow> string \<times> string"

definition UPLOAD_FOLDER :: string where
  "UPLOAD_FOLDER = ''static/uploads''"

definition OUTPUT_FOLDER :: string where
  "OUTPUT_FOLDER = ''static/outputs''"

definition path_join :: "string \<Rightarrow> string \<Rightarrow> string" where
  "path_join a b = a @ ''/'' @ b"

definition slashes :: "string \<Rightarrow> string" where
  "slashes s = map (\<lambda>c. if c = CHR 0x5C then CHR ''/'' else c) s"

section \<open>The resize step of transform (lines 556-564)\<close>

text \<open>
  Python's \<open>float\<close> is the IEEE 754 binary64 format. A float is modelled by the
  rational it denotes, and every float operation by the exact operation followed by
  \<open>fl\<close>, rounding to the nearest number with a 53-bit significand, ties to even.
  The exponent range is not modelled: the values of this computation lie between
  \<open>2\<^sup>-\<^sup>4\<^sup>3\<close> and \<open>2\<^sup>6\<^sup>3\<close> for image sides below \<open>2\<^sup>5\<^sup>3\<close>, far inside it.
  \<open>py_round\<close> is \<open>round(x)\<close> on a float: the nearest integer, ties to even.
\<close>

definition py_round :: "rat \<Rightarrow> int" where
  "py_round x =
     (let f = \<lfloor>x\<rfloor>; d = x - of_int f in
      if d < 1 / 2 then f else if 1 / 2 < d then f + 1 else if even f then f else f + 1)"

text \<open>\<open>binade x\<close> is the exponent \<open>e\<close> with \<open>2\<^sup>e \<le> x < 2\<^sup>e\<^sup>+\<^sup>1\<close>, for positive \<open>x\<close>.\<close>

definition binade :: "rat \<Rightarrow> int" where
  "binade x =
     (let (p, q) = quotient_of x; e = bitlen p - bitlen q in
      if power_int 2 e \<le> x then e else e - 1)"

definition fl :: "rat \<Rightarrow> rat" where
  "fl x =
     (if x = 0 then 0
      else let u = power_int 2 (binade \<bar>x\<bar> - 52) in sgn x * of_int (py_round (\<bar>x\<bar> / u)) * u)"

text \<open>
  \<open>w, h = img.size\<close>; \<open>scale = 1024.0 / float(longest) if longest != 0 else 1.0\<close>;
  \<open>new_w = max(1, int(round(w * scale)))\<close>, and the same for \<open>new_h\<close>. The product
  \<open>w * scale\<close> converts the int \<open>w\<close> to a float first.
\<close>

definition resize_dims :: "int \<Rightarrow> int \<Rightarrow> int \<times> int" where
  "resize_dims w h =
     (let longest = max w h;
          scale = (if longest \<noteq> 0 then fl (1024 / fl (of_int longest)) else 1);
          new_w = max 1 (py_round (fl (fl (of_int w) * scale)));
          new_h = max 1 (py_round (fl (fl (of_int h) * scale)))
      in (new_w, new_h))"

section \<open>transform (lines 524-623)\<close>

text \<open>
  What the generation service answered: \<open>response.candidates\<close> (possibly \<open>None\<close>), each
  candidate with the parts of its content (\<open>None\<close> where the content or its parts are
  missing), each part with the bytes of its \<open>inline_data\<close>, if it has one.
\<close>

datatype part = Part (inline_data: "string option")

datatype candidate = Candidate (content_parts: "part list option")

type_synonym genai_response = "candidate list option"

text \<open>
  The request and what the outside world answers while it is served: the logged-in
  session, the uploaded file's name, the clock, the size of the saved upload once
  opened and EXIF-transposed (or the exception PIL raises), the answer of
  \<open>generate_content\<close> (or
  its exception, a timeout included), whether PIL can open and save given image bytes,
  and whether the commit goes through.
\<close>

record transform_request =
  t_session_user :: "nat option"
  t_upload :: "string option"
  t_utcnow :: string
  t_opened :: "py_exception + int \<times> int"
  t_generated :: "py_exception + genai_response"
  t_decodes :: "string \<Rightarrow> bool"
  t_commit_ok :: bool

text \<open>Lines 572-576: \<open>[part.inline_data.data for part in
  response.candidates[0].content.parts if part.inline_data]\<close>.\<close>

fun image_parts :: "genai_response \<Rightarrow> py_exception + string list" where
  "image_parts None = Inl TypeError"
| "image_parts (Some []) = Inl IndexError"
| "image_parts (Some (Candidate None # cs)) = Inl AttributeError"
| "image_parts (Some (Candidate (Some ps) # cs)) =
     Inr (concat (map (\<lambda>p. case inline_data p of None \<Rightarrow> [] | Some d \<Rightarrow> [d]) ps))"

text \<open>Lines 567-581: the call's answer down to the bytes of the first image part.
  An exception of the call, a response without candidates, content or image parts, and
  bytes PIL cannot open all raise inside the \<open>try\<close>.\<close>

definition generated_image :: "transform_request \<Rightarrow> py_exception + string" where
  "generated_image rq =
     (case t_generated rq of
        Inl e \<Rightarrow> Inl e
      | Inr resp \<Rightarrow>
          (case image_parts resp of
             Inl e \<Rightarrow> Inl e
           | Inr [] \<Rightarrow> Inl (ValueError ''No image was generated in the response'')
           | Inr (img # rest) \<Rightarrow>
               if \<not> t_decodes rq img then Inl (ExternalError ''cannot identify image file'')
               else Inr img))"

text \<open>Lines 547-587, the body of the \<open>try\<close> up to the saved output: the input
  and output image paths, or the exception raised, with the effects so far.\<close>

definition transform_try ::
  "env \<Rightarrow> transform_request \<Rightarrow> string \<Rightarrow> (py_exception + string \<times> string) \<times> effect list" where
  "transform_try ev rq fname =
     (let filename = secure_filename ev fname in
      if filename = [] then (Inl (ValueError ''Invalid filename.''), [])
      else
        let filename = t_utcnow rq @ ''_'' @ filename;
            input_path = path_join UPLOAD_FOLDER filename;
            input_image = ''/'' @ slashes input_path;
            saved = [FileSaved input_path]
        in case t_opened rq of
             Inl e \<Rightarrow> (Inl e, saved)
           | Inr (w, h) \<Rightarrow>
               (let called = saved @ [GenerateContent (fst (resize_dims w h)) (snd (resize_dims w h))]
                in case generated_image rq of
                     Inl e \<Rightarrow> (Inl e, called)
                   | Inr img \<Rightarrow>
                       (let base_name = fst (splitext ev filename);
                            safe_base =
                              (if secure_filename ev base_name = [] then ''output''
                               else secure_filename ev base_name);
                            output_path =
                              path_join OUTPUT_FOLDER (''genai_white_'' @ safe_base @ ''.png'')
                        in (Inr (input_image, ''/'' @ slashes output_path),
                            called @ [FileSaved output_path]))))"

text \<open>Lines 597-598: the deduction, floored at zero, and the generation counter.\<close>

definition deduct_credits :: "user \<Rightarrow> user" where
  "deduct_credits u =
     u\<lparr>credits_remaining := max 0 (credits_remaining u - CREDITS_PER_IMAGE),
       generation_count := Some ((case generation_count u of None \<Rightarrow> 0 | Some n \<Rightarrow> n) + 1)\<rparr>"

text \<open>Line 530, the check the spec calls \<open>authorize\<close>: the request goes on iff it
  does not hold that \<open>credits_remaining < cost\<close>.\<close>

definition authorize :: "user \<Rightarrow> int \<Rightarrow> bool" where
  "authorize u cost = (\<not> credits_remaining u < cost)"

definition transform :: "env \<Rightarrow> database \<Rightarrow> transform_request \<Rightarrow> response \<times> database \<times> effect list" where
  "transform ev db rq =
     (case load_user db (t_session_user rq) of
        None \<Rightarrow> (Redirect ''signup'', db, [])
      | Some cu \<Rightarrow>
          if \<not> authorize cu CREDITS_PER_IMAGE then (Redirect ''upgrade'', db, [])
          else
            (case t_upload rq of
               None \<Rightarrow> (Redirect ''index'', db, [])
             | Some fname \<Rightarrow>
                 if fname = [] then (Redirect ''index'', db, [])
                 else
                   (case transform_try ev rq fname of
                      (Inl e, effs) \<Rightarrow> (RenderIndex None (Some e), db, effs)
                    | (Inr (input_image, output_image), effs) \<Rightarrow>
                        if \<not> t_commit_ok rq
                        then (RenderIndex (Some output_image) (Some CommitError), db, effs)
                        else
                          (RenderIndex (Some output_image) None,
                           db\<lparr>generations :=
                                 generations db @
                                   [\<lparr>user_id = uid cu, input_image_path = input_image,
                                     output_image_path = output_image\<rparr>],
                               users := update_first (\<lambda>u. uid u = uid cu) deduct_credits (users db)\<rparr>,
                           effs))))"

text \<open>A sequence of transform requests served one after the other: the responses
  and the database at the end.\<close>

fun transforms :: "env \<Rightarrow> database \<Rightarrow> transform_request list \<Rightarrow> response list \<times> database" where
  "transforms ev db [] = ([], db)"
| "transforms ev db (rq # rqs) =
     (let (r, db', effs) = transform ev db rq; (rs, db'') = transforms ev db' rqs
      in (r # rs, db''))"

section \<open>Billing: ensure_stripe_customer, post_checkout, stripe_webhook (lines 160-166, 342-459)\<close>

text \<open>
  The payment processor is a parameter: what \<open>stripe.Customer.create(email=...)\<close>
  and \<open>stripe.checkout.Session.retrieve(id, expand=['line_items'])\<close> answer, or the
  exception they raise. Of a checkout session the routes read the customer and the
  line items; a line item is the id of its price, \<open>None\<close> where the item has no price
  (\<open>item['price']['id']\<close> then raises).
\<close>

record checkout_session =
  cs_customer :: "string option"
  cs_line_items :: "string option list option"

record stripe_api =
  customer_create :: "string \<Rightarrow> py_exception + string"
  session_retrieve :: "string \<Rightarrow> py_exception + checkout_session"

text \<open>Lines 360-362, 415-417 and 438-440: \<open>price_id = None\<close>, then the price id of
  the first item where the items are present and not empty.\<close>

fun first_price_id :: "string option list option \<Rightarrow> py_exception + string option" where
  "first_price_id None = Inr None"
| "first_price_id (Some []) = Inr None"
| "first_price_id (Some (None # items)) = Inl TypeError"
| "first_price_id (Some (Some p # items)) = Inr (Some p)"

text \<open>Lines 161-166. The customer id is created and stored only where the user has
  none yet.\<close>

definition ensure_stripe_customer ::
  "stripe_api \<Rightarrow> database \<Rightarrow> user \<Rightarrow> bool \<Rightarrow> (py_exception + string) \<times> database" where
  "ensure_stripe_customer api db u commit_ok =
     (let create =
        (case customer_create api (email u) of
           Inl e \<Rightarrow> (Inl e, db)
         | Inr cid \<Rightarrow>
             if \<not> commit_ok then (Inl CommitError, db)
             else (Inr cid,
                   db\<lparr>users := update_first (\<lambda>v. uid v = uid u)
                                  (\<lambda>v. v\<lparr>stripe_customer_id := Some cid\<rparr>) (users db)\<rparr>))
      in case stripe_customer_id u of
           None \<Rightarrow> create
         | Some c \<Rightarrow> if c = [] then create else (Inr c, db))"

text \<open>The four assignments that put a user on a paid tier (lines 369-372, 376-379,
  423-426): a plain overwrite with the tier's credits.\<close>

definition activate :: "string \<Rightarrow> int \<Rightarrow> user \<Rightarrow> user" where
  "activate tier c u =
     u\<lparr>is_subscribed := True, plan_tier := tier, credits_remaining := c, credits_limit := c\<rparr>"

record post_checkout_request =
  pc_session_user :: "nat option"
  pc_session_id :: "string option"
  pc_commit_ok :: bool

text \<open>Lines 354-380, the body of the \<open>try\<close>.\<close>

definition post_checkout_try ::
  "stripe_config \<Rightarrow> stripe_api \<Rightarrow> database \<Rightarrow> post_checkout_request \<Rightarrow> string \<Rightarrow>
     py_exception + database" where
  "post_checkout_try cfg api db rq sid =
     (case session_retrieve api sid of
        Inl e \<Rightarrow> Inl e
      | Inr sess \<Rightarrow>
          if \<not> truthy (cs_customer sess) then Inl (ValueError ''No Stripe customer on session'')
          else
            (case first_price_id (cs_line_items sess) of
               Inl e \<Rightarrow> Inl e
             | Inr price_id \<Rightarrow>
                 (let tier = tier_of_price cfg price_id in
                  case find (\<lambda>u. stripe_customer_id u = cs_customer sess) (users db) of
                    Some usr \<Rightarrow>
                      (case plan_credits tier of
                         Inl e \<Rightarrow> Inl e
                       | Inr c \<Rightarrow>
                           if \<not> pc_commit_ok rq then Inl CommitError
                           else Inr (db\<lparr>users :=
                                  update_first (\<lambda>u. stripe_customer_id u = cs_customer sess)
                                    (activate tier c) (users db)\<rparr>))
                  | None \<Rightarrow>
                      (case load_user db (pc_session_user rq) of
                         None \<Rightarrow> Inr db
                       | Some cu \<Rightarrow>
                           (case plan_credits tier of
                              Inl e \<Rightarrow> Inl e
                            | Inr c \<Rightarrow>
                                if \<not> pc_commit_ok rq then Inl CommitError
                                else Inr (db\<lparr>users :=
                                       update_first (\<lambda>u. uid u = uid cu)
                                         (\<lambda>u. activate tier c
                                                (u\<lparr>stripe_customer_id := cs_customer sess\<rparr>))
                                         (users db)\<rparr>))))))"

definition post_checkout ::
  "stripe_config \<Rightarrow> stripe_api \<Rightarrow> database \<Rightarrow> post_checkout_request \<Rightarrow> response \<times> database" where
  "post_checkout cfg api db rq =
     (case pc_session_id rq of
        None \<Rightarrow> (Redirect ''index'', db)
      | Some sid \<Rightarrow>
          if sid = [] then (Redirect ''index'', db)
          else
            (case post_checkout_try cfg api db rq sid of
               Inl e \<Rightarrow> (Redirect ''index'', db)
             | Inr db' \<Rightarrow> (Redirect ''index?upgraded=1'', db')))"

text \<open>
  A webhook delivery: what \<open>stripe.Webhook.construct_event\<close> makes of the payload and
  its signature (the verified event, or the exception of a failed verification). Of
  the event the route reads its type and, in \<open>event["data"]["object"]\<close>, the id, the
  customer, the status and the subscription items (price ids, as for line items).
\<close>

record event =
  ev_type :: string
  ev_id :: string
  ev_customer :: "string option"
  ev_status :: "string option"
  ev_items :: "string option list option"

record webhook_request =
  wh_event :: "py_exception + event"
  wh_commit_ok :: bool

text \<open>Lines 414-427, the body of the \<open>try\<close> of the checkout-completed branch.\<close>

definition checkout_completed_try ::
  "stripe_config \<Rightarrow> stripe_api \<Rightarrow> database \<Rightarrow> event \<Rightarrow> bool \<Rightarrow> py_exception + database" where
  "checkout_completed_try cfg api db e commit_ok =
     (case session_retrieve api (ev_id e) of
        Inl x \<Rightarrow> Inl x
      | Inr sess \<Rightarrow>
          (case first_price_id (cs_line_items sess) of
             Inl x \<Rightarrow> Inl x
           | Inr price_id \<Rightarrow>
               (let tier = tier_of_price cfg price_id in
                case find (\<lambda>u. stripe_customer_id u = ev_customer e) (users db) of
                  None \<Rightarrow> Inr db
                | Some usr \<Rightarrow>
                    (case plan_credits tier of
                       Inl x \<Rightarrow> Inl x
                     | Inr c \<Rightarrow>
                         if \<not> commit_ok then Inl CommitError
                         else Inr (db\<lparr>users :=
                                update_first (\<lambda>u. stripe_customer_id u = ev_customer e)
                                  (activate tier c) (users db)\<rparr>)))))"

text \<open>Lines 437-457, the subscription updated/deleted branch (not in a \<open>try\<close>).\<close>

definition subscription_changed ::
  "stripe_config \<Rightarrow> database \<Rightarrow> event \<Rightarrow> bool \<Rightarrow> py_exception + database" where
  "subscription_changed cfg db e commit_ok =
     (case first_price_id (ev_items e) of
        Inl x \<Rightarrow> Inl x
      | Inr price_id \<Rightarrow>
          (let tier = tier_of_price cfg price_id in
           case find (\<lambda>u. stripe_customer_id u = ev_customer e) (users db) of
             None \<Rightarrow> Inr db
           | Some usr \<Rightarrow>
               (let is_active = (ev_status e = Some ''active'' \<or> ev_status e = Some ''trialing'');
                    new_tier = (if is_active then tier else ''free'')
                in case plan_credits new_tier of
                     Inl x \<Rightarrow> Inl x
                   | Inr c \<Rightarrow>
                       if \<not> commit_ok then Inl CommitError
                       else Inr (db\<lparr>users :=
                              update_first (\<lambda>u. stripe_customer_id u = ev_customer e)
                                (\<lambda>u. u\<lparr>is_subscribed := is_active, plan_tier := new_tier,
                                        credits_remaining := c, credits_limit := c\<rparr>)
                                (users db)\<rparr>))))"

definition stripe_webhook ::
  "stripe_config \<Rightarrow> stripe_api \<Rightarrow> database \<Rightarrow> webhook_request \<Rightarrow> response \<times> database" where
  "stripe_webhook cfg api db rq =
     (case wh_event rq of
        Inl x \<Rightarrow> (Json False 400, db)
      | Inr e \<Rightarrow>
          (let db1 =
             (if ev_type e = ''checkout.session.completed'' \<and> truthy (ev_customer e)
              then (case checkout_completed_try cfg api db e (wh_commit_ok rq) of
                      Inl x \<Rightarrow> db
                    | Inr d \<Rightarrow> d)
              else db)
           in if (ev_type e = ''customer.subscription.updated'' \<or>
                  ev_type e = ''customer.subscription.deleted'') \<and> truthy (ev_customer e)
              then (case subscription_changed cfg db1 e (wh_commit_ok rq) of
                      Inl x \<Rightarrow> (ServerError x, db1)
                    | Inr d \<Rightarrow> (Json True 200, d))
              else (Json True 200, db1)))"

section \<open>Mobile upload (lines 628-686)\<close>

text \<open>\<open>mobile_start\<close>: a new unused token, \<open>tok\<close> being \<open>uuid.uuid4().hex\<close>. The
  column is unique, so a token already in the table makes the commit fail.\<close>

definition mobile_start :: "database \<Rightarrow> nat option \<Rightarrow> string \<Rightarrow> (py_exception + string) \<times> database" where
  "mobile_start db sid tok =
     (if tok \<in> set (map token (tokens db)) then (Inl CommitError, db)
      else (Inr tok,
            db\<lparr>tokens := tokens db @
                  [\<lparr>token = tok, used = False, image_path = None,
                    token_user_id = map_option uid (load_user db sid)\<rparr>]\<rparr>))"

record mobile_upload_request =
  mu_token :: string
  mu_upload :: "string option"
  mu_commit_ok :: bool

definition mobile_upload_post ::
  "env \<Rightarrow> database \<Rightarrow> mobile_upload_request \<Rightarrow> response \<times> database \<times> effect list" where
  "mobile_upload_post ev db rq =
     (case find (\<lambda>t. token t = mu_token rq) (tokens db) of
        None \<Rightarrow> (Plain ''Link expired or already used.'' 410, db, [])
      | Some t \<Rightarrow>
          if used t then (Plain ''Link expired or already used.'' 410, db, [])
          else
            (case mu_upload rq of
               None \<Rightarrow> (RenderMobileUpload False, db, [])
             | Some fname \<Rightarrow>
                 if fname = [] then (RenderMobileUpload False, db, [])
                 else
                   (let filename =
                          (if secure_filename ev fname = [] then mu_token rq @ ''.jpg''
                           else secure_filename ev fname);
                        path = path_join UPLOAD_FOLDER (''mobile_'' @ mu_token rq @ ''_'' @ filename)
                    in if \<not> mu_commit_ok rq then (ServerError CommitError, db, [FileSaved path])
                       else
                         (RenderMobileUpload True,
                          db\<lparr>tokens :=
                                update_first (\<lambda>t. token t = mu_token rq)
                                  (\<lambda>t. t\<lparr>image_path := Some (''/'' @ slashes path), used := True\<rparr>)
                                  (tokens db)\<rparr>,
                          [FileSaved path]))))"

text \<open>\<open>mobile_status\<close> (lines 679-686): what the first device polls.\<close>

datatype poll = NotFound | Pending | Ready string

definition mobile_status :: "database \<Rightarrow> string \<Rightarrow> poll" where
  "mobile_status db tok =
     (case find (\<lambda>t. token t = tok) (tokens db) of
        None \<Rightarrow> NotFound
      | Some t \<Rightarrow>
          (case image_path t of
             None \<Rightarrow> Pending
           | Some p \<Rightarrow> if used t \<and> p \<noteq> [] then Ready p else Pending))"


section \<open>Example inputs\<close>

text \<open>A freshly signed-up user, a library environment, and a transform request that
  the generation service answers with a text part and an image part. They are the
  concrete inputs at which the theorems below are instantiated.\<close>

definition example_env :: env where
  "example_env = \<lparr>secure_filename = (\<lambda>s. s), splitext = (\<lambda>s. (takeWhile (\<lambda>c. c \<noteq> CHR ''.'') s, dropWhile (\<lambda>c. c \<noteq> CHR ''.'') s))\<rparr>"

definition example_user :: user where
  "example_user =
     \<lparr>uid = 1, email = ''a@example.com'', generation_count = Some 0, is_subscribed = False,
      stripe_customer_id = None, plan_tier = ''free'', credits_remaining = 10000,
      credits_limit = 10000\<rparr>"

definition example_db :: database where
  "example_db = \<lparr>users = [example_user], generations = [], tokens = []\<rparr>"

definition example_request :: transform_request where
  "example_request =
     \<lparr>t_session_user = Some 1, t_upload = Some ''room.jpg'', t_utcnow = ''20250101_120000'',
      t_opened = Inr (4000, 3000),
      t_generated = Inr (Some [Candidate (Some [Part None, Part (Some ''PNG'')])]),
      t_decodes = (\<lambda>b. True), t_commit_ok = True\<rparr>"


text \<open>An unused upload token made by \<open>mobile_start\<close>, and an upload to it.\<close>

definition example_token_db :: database where
  "example_token_db = snd (mobile_start example_db None ''0123abcd'')"

definition example_upload :: mobile_upload_request where
  "example_upload = \<lparr>mu_token = ''0123abcd'', mu_upload = Some ''photo.jpg'', mu_commit_ok = True\<rparr>"

text \<open>The price ids the configuration falls back to (lines 31-36), a payment
  processor that knows one checkout session, \<open>cs_B\<close> of customer \<open>cus_B\<close>, and
  issues \<open>cus_A\<close> to a new customer; the example user after \<open>ensure_stripe_customer\<close>;
  two deliveries of a checkout-completed event for that user, one whose session the
  processor cannot retrieve; and the return from checkout with session \<open>cs_B\<close>.\<close>

definition default_config :: stripe_config where
  "default_config =
     \<lparr>STRIPE_PRICE_ID_STARTER = ''price_starter_monthly'',
      STRIPE_PRICE_ID_CREATOR = ''price_creator_monthly'',
      STRIPE_PRICE_ID_ENTERPRISE = ''price_enterprise_monthly'',
      STRIPE_PRICE_ID_STARTER_ANNUAL = ''price_starter_annual'',
      STRIPE_PRICE_ID_CREATOR_ANNUAL = ''price_creator_annual'',
      STRIPE_PRICE_ID_ENTERPRISE_ANNUAL = ''price_enterprise_annual''\<rparr>"

definition example_api :: stripe_api where
  "example_api =
     \<lparr>customer_create = (\<lambda>em. Inr ''cus_A''),
      session_retrieve =
        (\<lambda>sid. if sid = ''cs_B''
               then Inr \<lparr>cs_customer = Some ''cus_B'',
                         cs_line_items = Some [Some ''price_starter_monthly'']\<rparr>
               else Inl (ExternalError ''No such checkout.session''))\<rparr>"

definition example_bound_db :: database where
  "example_bound_db = snd (ensure_stripe_customer example_api example_db example_user True)"


definition example_paid_gone :: webhook_request where
  "example_paid_gone =
     \<lparr>wh_event = Inr \<lparr>ev_type = ''checkout.session.completed'', ev_id = ''cs_gone'',
                       ev_customer = Some ''cus_A'', ev_status = Some ''complete'',
                       ev_items = None\<rparr>,
      wh_commit_ok = True\<rparr>"

definition example_return :: post_checkout_request where
  "example_return = \<lparr>pc_session_user = Some 1, pc_session_id = Some ''cs_B'', pc_commit_ok = True\<rparr>"

section \<open>Rows: finding and updating\<close>

lemma find_update_first_same:
  "(\<And>x. P x \<Longrightarrow> P (f x)) \<Longrightarrow> find P (update_first P f xs) = map_option f (find P xs)"
  by (induction xs) auto

lemma set_update_first:
  "set (update_first P f xs) \<subseteq> set xs \<union> f ` {x \<in> set xs. P x}"
  by (induction xs) auto





lemma map_update_first_keep:
  "(\<And>x. g (f x) = g x) \<Longrightarrow> map g (update_first P f xs) = map g xs"
  by (induction xs) auto

section \<open>The credit ledger in transform\<close>

lemma authorize_iff: "authorize u cost \<longleftrightarrow> cost \<le> credits_remaining u"
  by (auto simp: authorize_def)

lemma transform_success:
  assumes "transform ev db rq = (RenderIndex (Some out) None, db', effs)"
  shows "\<exists>cu inp. load_user db (t_session_user rq) = Some cu \<and> authorize cu CREDITS_PER_IMAGE \<and>
       db' = db\<lparr>generations := generations db @ [\<lparr>user_id = uid cu, input_image_path = inp, output_image_path = out\<rparr>],
                users := update_first (\<lambda>u. uid u = uid cu) deduct_credits (users db)\<rparr>"
  using assms
  by (auto simp: transform_def split: option.splits if_splits prod.splits sum.splits)

lemma deduct_credits_nonneg: "0 \<le> credits_remaining (deduct_credits u)"
  by (simp add: deduct_credits_def)

lemma transform_users:
  assumes "transform ev db rq = (r, db', effs)"
  shows "users db' = users db \<or>
    (\<exists>i. users db' = update_first (\<lambda>u. uid u = i) deduct_credits (users db))"
  using assms
  by (auto simp: transform_def split: option.splits if_splits prod.splits sum.splits)

lemma transform_nonneg:
  assumes inv: "\<forall>u\<in>set (users db). 0 \<le> credits_remaining u"
    and t: "transform ev db rq = (r, db', effs)"
  shows "\<forall>u\<in>set (users db'). 0 \<le> credits_remaining u"
proof
  fix v assume v: "v \<in> set (users db')"
  from transform_users [OF t] show "0 \<le> credits_remaining v"
  proof
    assume "users db' = users db"
    with inv v show ?thesis by simp
  next
    assume "\<exists>i. users db' = update_first (\<lambda>u. uid u = i) deduct_credits (users db)"
    then obtain i where u: "users db' = update_first (\<lambda>u. uid u = i) deduct_credits (users db)" ..
    with v set_update_first [of "\<lambda>u. uid u = i" deduct_credits "users db"]
    have "v \<in> set (users db) \<or> (\<exists>x. v = deduct_credits x)" by auto
    then show ?thesis
      using inv deduct_credits_nonneg by auto
  qed
qed

lemma load_user_uid: "load_user db (Some i) = Some u \<Longrightarrow> uid u = i"
  by (auto simp: load_user_def find_Some_iff)

lemma transform_success_user:
  assumes l: "load_user db (Some i) = Some u"
    and s: "t_session_user rq = Some i"
    and t: "transform ev db rq = (RenderIndex (Some out) None, db', effs)"
  shows "load_user db' (Some i) = Some (deduct_credits u) \<and> CREDITS_PER_IMAGE \<le> credits_remaining u"
proof -
  from transform_success [OF t] l s obtain inp where
    a: "authorize u CREDITS_PER_IMAGE" and
    d: "db' = db\<lparr>generations := generations db @ [\<lparr>user_id = uid u, input_image_path = inp, output_image_path = out\<rparr>],
                users := update_first (\<lambda>v. uid v = uid u) deduct_credits (users db)\<rparr>"
    by auto
  have i: "uid u = i" using l by (rule load_user_uid)
  have "find (\<lambda>v. uid v = i) (update_first (\<lambda>v. uid v = i) deduct_credits (users db))
      = map_option deduct_credits (find (\<lambda>v. uid v = i) (users db))"
    by (rule find_update_first_same) (simp add: deduct_credits_def)
  with l d i have "load_user db' (Some i) = Some (deduct_credits u)"
    by (simp add: load_user_def)
  with a show ?thesis by (simp add: authorize_iff)
qed

lemma transforms_success_credits:
  assumes "load_user db (Some i) = Some u"
    and "\<forall>rq\<in>set rqs. t_session_user rq = Some i"
    and "\<forall>r\<in>set (fst (transforms ev db rqs)). \<exists>out. r = RenderIndex (Some out) None"
  shows "\<exists>u'. load_user (snd (transforms ev db rqs)) (Some i) = Some u' \<and>
           credits_remaining u' = credits_remaining u - CREDITS_PER_IMAGE * int (length rqs)"
  using assms
proof (induction rqs arbitrary: db u)
  case Nil
  then show ?case by simp
next
  case (Cons rq rqs)
  obtain r db' effs where t: "transform ev db rq = (r, db', effs)"
    by (cases "transform ev db rq") auto
  obtain rs db'' where ts: "transforms ev db' rqs = (rs, db'')"
    by (cases "transforms ev db' rqs") auto
  from Cons.prems(3) t ts obtain out where r: "r = RenderIndex (Some out) None"
    by auto
  from Cons.prems(2) have s: "t_session_user rq = Some i" by simp
  from transform_success_user [OF Cons.prems(1) s t [unfolded r]]
  have l': "load_user db' (Some i) = Some (deduct_credits u)"
    and c: "CREDITS_PER_IMAGE \<le> credits_remaining u" by auto
  have "\<exists>u'. load_user (snd (transforms ev db' rqs)) (Some i) = Some u' \<and>
           credits_remaining u' = credits_remaining (deduct_credits u) - CREDITS_PER_IMAGE * int (length rqs)"
    using Cons.prems(2,3) t ts by (intro Cons.IH [OF l']) auto
  moreover have "credits_remaining (deduct_credits u) = credits_remaining u - CREDITS_PER_IMAGE"
    using c by (simp add: deduct_credits_def)
  ultimately show ?case
    by (auto simp: t ts algebra_simps)
qed



lemma example_user_signup: "signup_user 1 ''a@example.com'' = Inr example_user"
  by (simp add: signup_user_def plan_credits_def PLAN_CREDITS_def example_user_def)

lemma example_transforms:
  "transforms example_env example_db (replicate 20 example_request) =
     (replicate 20 (RenderIndex (Some ''/static/outputs/genai_white_20250101_120000_room.png'') None),
      \<lparr>users = [example_user\<lparr>credits_remaining := 0, generation_count := Some 20\<rparr>],
       generations =
         replicate 20
           \<lparr>user_id = 1, input_image_path = ''/static/uploads/20250101_120000_room.jpg'',
            output_image_path = ''/static/outputs/genai_white_20250101_120000_room.png''\<rparr>,
       tokens = []\<rparr>)"
  by (simp add: numeral_eq_Suc transform_def example_env_def example_db_def example_request_def
      example_user_def load_user_def authorize_def CREDITS_PER_IMAGE_def transform_try_def
      generated_image_def UPLOAD_FOLDER_def OUTPUT_FOLDER_def path_join_def slashes_def
      deduct_credits_def Let_def)

section \<open>Claims about transform\<close>

text \<open>
  Claim C1. For every sequence of transform requests, served one after the other, the
  credits of no account become negative: where every user of the database has
  \<open>credits_remaining \<ge> 0\<close> before, every user has it after. The deduction itself is
  floored at zero, whatever the balance was.
\<close>

theorem credits_never_negative:
  "(\<forall>u\<in>set (users db). 0 \<le> credits_remaining u) \<Longrightarrow>
     (\<forall>u\<in>set (users (snd (transforms ev db rqs))). 0 \<le> credits_remaining u) \<and>
     credits_remaining (deduct_credits v) = max 0 (credits_remaining v - 500)"
proof (induction rqs arbitrary: db)
  case Nil
  then show ?case by (simp add: deduct_credits_def CREDITS_PER_IMAGE_def)
next
  case (Cons rq rqs)
  obtain r db' effs where t: "transform ev db rq = (r, db', effs)"
    by (cases "transform ev db rq") auto
  have "\<forall>u\<in>set (users db'). 0 \<le> credits_remaining u"
    using transform_nonneg [OF Cons.prems t] .
  from Cons.IH [OF this] show ?case
    by (simp add: t split: prod.splits)
qed

theorem credits_never_negative_witness:
  "list_all (\<lambda>u. 0 \<le> credits_remaining u) (users example_db) \<and>
   list_all (\<lambda>u. 0 \<le> credits_remaining u)
     (users (snd (transforms example_env example_db (replicate 20 example_request))))"
  using credits_never_negative [of example_db example_env "replicate 20 example_request"]
  by (simp add: list_all_iff example_db_def example_user_def)

text \<open>
  Claim C7. \<open>authorize\<close> is a function of the account alone and holds iff
  \<open>credits_remaining \<ge> cost\<close>. For a logged-in user, transform answers with the
  redirect to the upgrade page exactly when \<open>credits_remaining < 500\<close> at entry, and
  then the database is unchanged and nothing was done outside it: no file saved, no
  call of the generation service.
\<close>

theorem insufficient_credits_iff:
  assumes "load_user db (t_session_user rq) = Some cu"
  shows "(authorize u cost \<longleftrightarrow> cost \<le> credits_remaining u) \<and>
         (fst (transform ev db rq) = Redirect ''upgrade'' \<longleftrightarrow> credits_remaining cu < 500) \<and>
         (credits_remaining cu < 500 \<longrightarrow> transform ev db rq = (Redirect ''upgrade'', db, []))"
  using assms
  by (auto simp: transform_def authorize_def CREDITS_PER_IMAGE_def split: option.splits prod.splits sum.splits)

theorem insufficient_credits_iff_witness:
  "transform example_env (example_db\<lparr>users := [example_user\<lparr>credits_remaining := 499\<rparr>]\<rparr>)
       example_request
     = (Redirect ''upgrade'', example_db\<lparr>users := [example_user\<lparr>credits_remaining := 499\<rparr>]\<rparr>, []) \<and>
   fst (transform example_env example_db example_request) \<noteq> Redirect ''upgrade''"
proof -
  have 1: "load_user (example_db\<lparr>users := [example_user\<lparr>credits_remaining := 499\<rparr>]\<rparr>)
             (t_session_user example_request) = Some (example_user\<lparr>credits_remaining := 499\<rparr>)"
    by (simp add: load_user_def example_request_def example_user_def)
  have 2: "load_user example_db (t_session_user example_request) = Some example_user"
    by (simp add: load_user_def example_db_def example_request_def example_user_def)
  from insufficient_credits_iff [OF 1, of example_user 500 example_env]
    insufficient_credits_iff [OF 2, of example_user 500 example_env]
  show ?thesis by (simp add: example_user_def)
qed

text \<open>
  Claim C8. An account at tier free with \<open>credits_remaining = credits_limit = 10000\<close>:
  after twenty consecutive transform requests of that user that all succeed, its
  \<open>credits_remaining\<close> is exactly 0, \<open>authorize\<close> at cost 500 is false, and every
  further transform request of that user is answered with the redirect to the upgrade
  page, the database unchanged.
\<close>

theorem twenty_generations:
  assumes "load_user db (Some i) = Some u"
    and "plan_tier u = ''free''" and "credits_remaining u = 10000" and "credits_limit u = 10000"
    and "length rqs = 20"
    and "\<forall>rq\<in>set rqs. t_session_user rq = Some i"
    and "\<forall>r\<in>set (fst (transforms ev db rqs)). \<exists>out. r = RenderIndex (Some out) None"
  shows "\<exists>u'. load_user (snd (transforms ev db rqs)) (Some i) = Some u' \<and>
           credits_remaining u' = 0 \<and> \<not> authorize u' CREDITS_PER_IMAGE \<and>
           (\<forall>rq. t_session_user rq = Some i \<longrightarrow>
              transform ev (snd (transforms ev db rqs)) rq =
                (Redirect ''upgrade'', snd (transforms ev db rqs), []))"
proof -
  from transforms_success_credits [OF assms(1) assms(6) assms(7)] assms(3,5)
  obtain u' where l: "load_user (snd (transforms ev db rqs)) (Some i) = Some u'"
    and c: "credits_remaining u' = 0"
    by (auto simp: CREDITS_PER_IMAGE_def)
  have "\<not> authorize u' CREDITS_PER_IMAGE"
    using c by (simp add: authorize_def CREDITS_PER_IMAGE_def)
  moreover have "transform ev (snd (transforms ev db rqs)) rq =
                (Redirect ''upgrade'', snd (transforms ev db rqs), [])" if "t_session_user rq = Some i" for rq
    using l c that by (simp add: transform_def authorize_def CREDITS_PER_IMAGE_def)
  ultimately show ?thesis using l c by blast
qed

theorem twenty_generations_witness:
  "\<exists>u'. load_user (snd (transforms example_env example_db (replicate 20 example_request))) (Some 1)
          = Some u' \<and>
        credits_remaining u' = 0 \<and> \<not> authorize u' CREDITS_PER_IMAGE \<and>
        transform example_env (snd (transforms example_env example_db (replicate 20 example_request)))
            example_request =
          (Redirect ''upgrade'',
           snd (transforms example_env example_db (replicate 20 example_request)), [])"
proof -
  have 1: "load_user example_db (Some 1) = Some example_user"
    by (simp add: load_user_def example_db_def example_user_def)
  have 2: "plan_tier example_user = ''free''" "credits_remaining example_user = 10000"
    "credits_limit example_user = 10000"
    by (simp_all add: example_user_def)
  have 3: "length (replicate 20 example_request) = 20" by simp
  have 4: "\<forall>rq\<in>set (replicate 20 example_request). t_session_user rq = Some 1"
    by (simp add: example_request_def)
  have 5: "\<forall>r\<in>set (fst (transforms example_env example_db (replicate 20 example_request))).
             \<exists>out. r = RenderIndex (Some out) None"
    by (simp add: example_transforms)
  have 6: "t_session_user example_request = Some 1"
    by (simp add: example_request_def)
  from twenty_generations [OF 1 2 3 4 5] 6 show ?thesis by blast
qed



section \<open>The upload token\<close>






lemma example_token_db_eq:
  "example_token_db = \<lparr>users = [example_user], generations = [],
     tokens = [\<lparr>token = ''0123abcd'', used = False, image_path = None, token_user_id = None\<rparr>]\<rparr>"
  by (simp add: example_token_db_def mobile_start_def example_db_def load_user_def)

lemma example_upload_post:
  "mobile_upload_post example_env example_token_db example_upload =
     (RenderMobileUpload True,
      \<lparr>users = [example_user], generations = [],
       tokens = [\<lparr>token = ''0123abcd'', used = True,
                  image_path = Some ''/static/uploads/mobile_0123abcd_photo.jpg'',
                  token_user_id = None\<rparr>]\<rparr>,
      [FileSaved ''static/uploads/mobile_0123abcd_photo.jpg''])"
  by (simp add: example_token_db_eq mobile_upload_post_def example_upload_def example_env_def
      UPLOAD_FOLDER_def path_join_def slashes_def Let_def)

lemma example_status:
  "mobile_status example_token_db ''0123abcd'' = Pending \<and>
   mobile_status (fst (snd (mobile_upload_post example_env example_token_db example_upload)))
     ''0123abcd'' = Ready ''/static/uploads/mobile_0123abcd_photo.jpg''"
  by (simp add: example_upload_post) (simp add: example_token_db_eq mobile_status_def)



text \<open>
  Claim C10. An upload without a file, or with an empty file name, to a known and
  unused token is turned away with the database unchanged, so the token is still
  unused and has no image; a later upload to the same token that carries a file (and
  whose commit goes through) succeeds.
\<close>

theorem deposit_without_file:
  assumes "find (\<lambda>t. token t = mu_token rq) (tokens db) = Some t" and "\<not> used t"
    and "mu_upload rq = None \<or> mu_upload rq = Some []"
  shows "mobile_upload_post ev db rq = (RenderMobileUpload False, db, []) \<and>
         (\<forall>rq2 fname. mu_token rq2 = mu_token rq \<and> mu_upload rq2 = Some fname \<and> fname \<noteq> [] \<and>
            mu_commit_ok rq2 \<longrightarrow>
            fst (mobile_upload_post ev (fst (snd (mobile_upload_post ev db rq))) rq2)
              = RenderMobileUpload True)"
  using assms
  by (auto simp: mobile_upload_post_def Let_def)

theorem deposit_without_file_witness:
  "mobile_upload_post example_env example_token_db (example_upload\<lparr>mu_upload := None\<rparr>)
     = (RenderMobileUpload False, example_token_db, []) \<and>
   fst (mobile_upload_post example_env
          (fst (snd (mobile_upload_post example_env example_token_db
             (example_upload\<lparr>mu_upload := None\<rparr>)))) example_upload)
     = RenderMobileUpload True"
proof -
  have 1: "find (\<lambda>t. token t = mu_token (example_upload\<lparr>mu_upload := None\<rparr>)) (tokens example_token_db)
         = Some \<lparr>token = ''0123abcd'', used = False, image_path = None, token_user_id = None\<rparr>"
    by (simp add: example_token_db_eq example_upload_def)
  have 2: "\<not> used \<lparr>token = ''0123abcd'', used = False, image_path = None, token_user_id = None\<rparr>"
    by simp
  have 3: "mu_upload (example_upload\<lparr>mu_upload := None\<rparr>) = None \<or>
           mu_upload (example_upload\<lparr>mu_upload := None\<rparr>) = Some []"
    by simp
  have 4: "mu_token example_upload = mu_token (example_upload\<lparr>mu_upload := None\<rparr>) \<and>
           mu_upload example_upload = Some ''photo.jpg'' \<and> ''photo.jpg'' \<noteq> [] \<and>
           mu_commit_ok example_upload"
    by (simp add: example_upload_def)
  from deposit_without_file [OF 1 2 3, of example_env] 4 show ?thesis by blast
qed

section \<open>Subscription events\<close>

lemma activate_idem: "activate tier c (activate tier c u) = activate tier c u"
  by (simp add: activate_def)






lemma webhook_keeps_customer_ids:
  "map stripe_customer_id (users (snd (stripe_webhook cfg api db rq))) = map stripe_customer_id (users db)"
  by (auto simp: stripe_webhook_def checkout_completed_try_def subscription_changed_def Let_def
      activate_def map_update_first_keep split: sum.splits option.splits)

lemma ensure_keeps_customer_id:
  "stripe_customer_id u = Some c \<Longrightarrow> c \<noteq> [] \<Longrightarrow>
     ensure_stripe_customer api db u ok = (Inr c, db)"
  by (simp add: ensure_stripe_customer_def)

lemma example_bound_db_eq:
  "example_bound_db =
     \<lparr>users = [example_user\<lparr>stripe_customer_id := Some ''cus_A''\<rparr>], generations = [], tokens = []\<rparr>"
  by (simp add: example_bound_db_def ensure_stripe_customer_def example_api_def example_db_def
      example_user_def)

lemma tier_of_starter: "tier_of_price default_config (Some ''price_starter_monthly'') = ''starter''"
  by (simp add: tier_of_price_def PRICE_ID_TO_TIER_def default_config_def)

lemma credits_of_starter: "plan_credits ''starter'' = Inr 120000"
  by (simp add: plan_credits_def PLAN_CREDITS_def)




text \<open>
  Claim C9. A verified checkout-completed event whose processing raises inside the
  \<open>try\<close> (the session cannot be retrieved, a line item has no price, the tier has
  no credits entry, the commit fails): the route answers 200 with \<open>success=True\<close>
  all the same, and the database is unchanged.
\<close>

theorem webhook_swallows_error:
  assumes "wh_event rq = Inr e" and "ev_type e = ''checkout.session.completed''"
    and "truthy (ev_customer e)"
    and "checkout_completed_try cfg api db e (wh_commit_ok rq) = Inl x"
  shows "stripe_webhook cfg api db rq = (Json True 200, db)"
  using assms by (simp add: stripe_webhook_def)

theorem webhook_swallows_error_witness:
  "stripe_webhook default_config example_api example_bound_db example_paid_gone =
     (Json True 200, example_bound_db)"
proof -
  let ?e = "\<lparr>ev_type = ''checkout.session.completed'', ev_id = ''cs_gone'',
             ev_customer = Some ''cus_A'', ev_status = Some ''complete'', ev_items = None\<rparr>"
  have 1: "wh_event example_paid_gone = Inr ?e" by (simp add: example_paid_gone_def)
  have 2: "ev_type ?e = ''checkout.session.completed''" by simp
  have 3: "truthy (ev_customer ?e)" by simp
  have 4: "checkout_completed_try default_config example_api example_bound_db ?e
             (wh_commit_ok example_paid_gone) = Inl (ExternalError ''No such checkout.session'')"
    by (simp add: checkout_completed_try_def example_api_def)
  from webhook_swallows_error [OF 1 2 3 4] show ?thesis .
qed

text \<open>
  Claim C3. The claim is that no route overwrites a customer id that is set.
  \<open>stripe_webhook\<close> never writes the field and \<open>ensure_stripe_customer\<close> leaves
  a set id alone (the two lemmas above), but the fallback branch of \<open>post_checkout\<close>
  (lines 374-380) assigns without looking: the example user, bound to \<open>cus_A\<close> and
  logged in, returns from checkout with a session of customer \<open>cus_B\<close>, whom no row
  carries, and ends up bound to \<open>cus_B\<close>.
\<close>

theorem post_checkout_rebinds_customer:
  "map stripe_customer_id (users example_bound_db) = [Some ''cus_A''] \<and>
   load_user example_bound_db (pc_session_user example_return)
     = Some (example_user\<lparr>stripe_customer_id := Some ''cus_A''\<rparr>) \<and>
   map stripe_customer_id
     (users (snd (post_checkout default_config example_api example_bound_db example_return)))
     = [Some ''cus_B'']"
  by (simp add: example_bound_db_eq post_checkout_def post_checkout_try_def example_return_def
      example_api_def tier_of_starter credits_of_starter activate_def example_user_def load_user_def)

section \<open>The resize step\<close>

lemma py_round_err: "\<bar>of_int (py_round x) - x\<bar> \<le> 1 / 2"
proof -
  define f where "f = \<lfloor>x\<rfloor>"
  have 1: "of_int f \<le> x" and 2: "x < of_int f + 1" unfolding f_def by linarith+
  have "py_round x = (if x - of_int f < 1 / 2 then f else if 1 / 2 < x - of_int f then f + 1
      else if even f then f else f + 1)"
    by (simp add: py_round_def Let_def f_def)
  then consider "py_round x = f" "x - of_int f \<le> 1 / 2" | "py_round x = f + 1" "1 / 2 \<le> x - of_int f"
    by (cases "x - of_int f < 1 / 2"; cases "1 / 2 < x - of_int f"; cases "even f") auto
  then show ?thesis
  proof cases
    case 1
    with \<open>of_int f \<le> x\<close> show ?thesis by simp
  next
    case 2
    with \<open>x < of_int f + 1\<close> show ?thesis by simp
  qed
qed

lemma py_round_near:
  assumes "\<bar>x - of_int n\<bar> < 1 / 2"
  shows "py_round x = n"
proof -
  have "\<bar>of_int (py_round x) - x\<bar> \<le> 1 / 2" by (rule py_round_err)
  with assms have "\<bar>(of_int (py_round x) :: rat) - of_int n\<bar> < 1" by linarith
  then have "\<bar>(of_int (py_round x - n) :: rat)\<bar> < 1" by simp
  then have "\<bar>py_round x - n\<bar> < 1"
    by (metis of_int_abs of_int_less_1_iff)
  then show ?thesis by simp
qed

lemma py_round_of_int: "py_round (of_int n) = n"
  by (rule py_round_near) simp

lemma bitlen_pow_bounds:
  assumes "0 < p"
  shows "\<exists>k. bitlen p = int k + 1 \<and> 2 ^ k \<le> p \<and> p < 2 ^ (Suc k)"
proof -
  from assms have "bitlen p \<noteq> 0" by (simp add: bitlen_eq_zero_iff)
  with bitlen_nonneg [of p] have pos: "0 < bitlen p" by simp
  define k where "k = nat (bitlen p - 1)"
  from pos have b: "bitlen p = int k + 1" by (simp add: k_def)
  then have n: "nat (bitlen p) = Suc k" by simp
  from bitlen_bounds [OF assms] have "2 ^ k \<le> p" "p < 2 ^ (Suc k)"
    unfolding n k_def by simp_all
  with b show ?thesis by blast
qed

lemma binade_bounds:
  assumes "0 < x"
  shows "power_int 2 (binade x) \<le> x \<and> x < power_int 2 (binade x + 1)"
proof -
  obtain p q where pq: "quotient_of x = (p, q)" by (cases "quotient_of x") auto
  then have q: "0 < q" by (rule quotient_of_denom_pos)
  have x: "x = of_int p / of_int q" using pq by (rule quotient_of_div)
  with assms q have p: "0 < p" by (simp add: zero_less_divide_iff)
  from bitlen_pow_bounds [OF p] obtain kp where
    kp: "bitlen p = int kp + 1" "2 ^ kp \<le> p" "p < 2 ^ (Suc kp)" by blast
  from bitlen_pow_bounds [OF q] obtain kq where
    kq: "bitlen q = int kq + 1" "2 ^ kq \<le> q" "q < 2 ^ (Suc kq)" by blast
  define e where "e = int kp - int kq"
  have pr: "(2::rat) ^ kp \<le> of_int p" "(of_int p :: rat) < 2 ^ (Suc kp)"
    using kp(2,3) by (metis of_int_le_iff of_int_numeral of_int_power, metis of_int_less_iff of_int_numeral of_int_power)
  have qr: "(2::rat) ^ kq \<le> of_int q" "(of_int q :: rat) < 2 ^ (Suc kq)"
    using kq(2,3) by (metis of_int_le_iff of_int_numeral of_int_power, metis of_int_less_iff of_int_numeral of_int_power)
  have qpos: "(0::rat) < of_int q" using q by simp
  have up: "x < power_int (2::rat) (e + 1)"
  proof -
    have "x * of_int q = of_int p" using x qpos by simp
    also have "\<dots> < 2 ^ (Suc kp)" by (rule pr)
    also have "\<dots> = power_int 2 (e + 1) * 2 ^ kq"
      by (simp add: e_def power_int_diff power_int_add)
    also have "\<dots> \<le> power_int 2 (e + 1) * of_int q"
      using qr(1) by (intro mult_left_mono) simp_all
    finally show ?thesis using qpos by simp
  qed
  have lo: "power_int (2::rat) (e - 1) < x"
  proof -
    have "power_int (2::rat) (e - 1) * of_int q < power_int 2 (e - 1) * 2 ^ (Suc kq)"
      using qr(2) by (intro mult_strict_left_mono) simp_all
    also have "\<dots> = 2 ^ kp"
      by (simp add: e_def power_int_diff power_int_add)
    also have "\<dots> \<le> of_int p" by (rule pr)
    also have "\<dots> = x * of_int q" using x qpos by simp
    finally show ?thesis using qpos by simp
  qed
  have b: "binade x = (if power_int 2 e \<le> x then e else e - 1)"
    by (simp add: binade_def pq kp kq e_def)
  show ?thesis
  proof (cases "power_int 2 e \<le> x")
    case True
    with b up show ?thesis by simp
  next
    case False
    with b lo show ?thesis by simp
  qed
qed

lemma fl_pos_eq:
  assumes "0 < x"
  shows "fl x = of_int (py_round (x / power_int 2 (binade x - 52))) * power_int 2 (binade x - 52)"
  using assms by (simp add: fl_def Let_def)

lemma fl_err:
  assumes "0 < x"
  shows "\<bar>fl x - x\<bar> \<le> x / 2 ^ 53"
proof -
  define u :: rat where "u = power_int 2 (binade x - 52)"
  have u: "0 < u" by (simp add: u_def power_int_def)
  have "\<bar>of_int (py_round (x / u)) - x / u\<bar> \<le> 1 / 2" by (rule py_round_err)
  then have "\<bar>of_int (py_round (x / u)) - x / u\<bar> * u \<le> 1 / 2 * u"
    using u by (intro mult_right_mono) simp_all
  moreover have "\<bar>of_int (py_round (x / u)) - x / u\<bar> * u = \<bar>of_int (py_round (x / u)) * u - x\<bar>"
  proof -
    have "\<bar>of_int (py_round (x / u)) - x / u\<bar> * u = \<bar>(of_int (py_round (x / u)) - x / u) * u\<bar>"
      using u by (simp add: abs_mult)
    also have "(of_int (py_round (x / u)) - x / u) * u = of_int (py_round (x / u)) * u - x"
      using u by (simp add: algebra_simps)
    finally show ?thesis .
  qed
  ultimately have "\<bar>of_int (py_round (x / u)) * u - x\<bar> \<le> 1 / 2 * u" by simp
  moreover have "fl x = of_int (py_round (x / u)) * u"
    using assms by (simp only: fl_pos_eq u_def)
  ultimately have 1: "\<bar>fl x - x\<bar> \<le> u / 2" by simp
  have "u = power_int 2 (binade x) / 2 ^ 52"
    by (simp add: u_def power_int_diff)
  also have "\<dots> \<le> x / 2 ^ 52"
    using binade_bounds [OF assms] by (simp add: divide_right_mono)
  finally have "u / 2 \<le> x / 2 ^ 53" by simp
  with 1 show ?thesis by linarith
qed

lemma fl_of_int:
  assumes "0 < n" and "n < 2 ^ 53"
  shows "fl (of_int n) = of_int n"
proof -
  define x :: rat where "x = of_int n"
  have x: "0 < x" using assms(1) by (simp add: x_def)
  have "x < 2 ^ 53" using assms(2) unfolding x_def
    by (metis of_int_less_iff of_int_numeral of_int_power)
  with binade_bounds [OF x] have "power_int (2::rat) (binade x) < power_int 2 53" by simp
  then have "binade x < 53"
    by (metis not_le power_int_increasing one_le_numeral)
  define k where "k = nat (52 - binade x)"
  with \<open>binade x < 53\<close> have e: "binade x - 52 = - int k" by simp
  have u: "power_int (2::rat) (binade x - 52) = 1 / 2 ^ k"
    by (simp add: e power_int_minus_divide)
  have "x / (1 / 2 ^ k) = of_int (n * 2 ^ k)" by (simp add: x_def)
  then have "py_round (x / (1 / 2 ^ k)) = n * 2 ^ k"
    by (simp only: py_round_of_int)
  then have "fl x = of_int (n * 2 ^ k) * (1 / 2 ^ k)"
    using x by (simp only: fl_pos_eq u)
  then show ?thesis by (simp add: x_def)
qed

lemma resize_example: "resize_dims 512 256 = (1024, 512)"
proof -
  have 1: "fl 512 = 512" using fl_of_int [of 512] by simp
  have 2: "fl 256 = 256" using fl_of_int [of 256] by simp
  have 3: "fl 2 = 2" using fl_of_int [of 2] by simp
  have 4: "fl 1024 = 1024" using fl_of_int [of 1024] by simp
  have 5: "py_round 1024 = 1024" using py_round_of_int [of 1024] by simp
  have 6: "py_round 512 = 512" using py_round_of_int [of 512] by simp
  show ?thesis
    by (simp add: resize_dims_def 1 2 3 4 5 6)
qed

lemma scaled_err:
  assumes d: "0 < d" and dL: "d \<le> L" and L: "L < 2 ^ 53"
  shows "\<bar>fl (fl (of_int d) * fl (1024 / fl (of_int L))) - 1024 * of_int d / of_int L\<bar>
           \<le> 2049 / 2 ^ 53"
proof -
  have Lpos: "0 < L" using d dL by simp
  have dlt: "d < 2 ^ 53" using dL L by simp
  define q :: rat where "q = 1024 / of_int L"
  define s where "s = fl q"
  define D :: rat where "D = of_int d"
  define X where "X = D * q"
  have q: "0 < q" using Lpos by (simp add: q_def)
  have D: "0 < D" using d by (simp add: D_def)
  have X: "0 < X" using q D by (simp add: X_def)
  have "D \<le> of_int L" using dL by (simp add: D_def)
  then have "D * q \<le> of_int L * q" using q by (intro mult_right_mono) simp_all
  also have "of_int L * q = 1024" using Lpos by (simp add: q_def)
  finally have X1024: "X \<le> 1024" by (simp add: X_def)
  have sq: "\<bar>s - q\<bar> \<le> q / 2 ^ 53" unfolding s_def by (rule fl_err [OF q])
  have "\<bar>D * s - X\<bar> = D * \<bar>s - q\<bar>"
    using D by (simp add: X_def abs_mult flip: right_diff_distrib)
  also have "\<dots> \<le> D * (q / 2 ^ 53)" using sq D by (intro mult_left_mono) simp_all
  also have "\<dots> = X / 2 ^ 53" by (simp add: X_def)
  finally have e1: "\<bar>D * s - X\<bar> \<le> X / 2 ^ 53" .
  have "X / 2 ^ 53 \<le> 1024 / 2 ^ 53" using X1024 by (simp add: divide_right_mono)
  with e1 have e1': "\<bar>D * s - X\<bar> \<le> 1024 / 2 ^ 53" by linarith
  have "X / 2 ^ 53 < X" using X by simp
  with e1 have Dspos: "0 < D * s" by linarith
  have "(1024::rat) / 2 ^ 53 \<le> 1" by simp
  with e1' X1024 have "D * s \<le> 1025" by linarith
  then have "D * s / 2 ^ 53 \<le> 1025 / 2 ^ 53" by (simp add: divide_right_mono)
  with fl_err [OF Dspos] have e2: "\<bar>fl (D * s) - D * s\<bar> \<le> 1025 / 2 ^ 53" by linarith
  from e1' e2 have "\<bar>fl (D * s) - X\<bar> \<le> 2049 / 2 ^ 53" by linarith
  moreover have "fl (of_int d) = D" unfolding D_def by (rule fl_of_int [OF d dlt])
  moreover have "fl (of_int L) = of_int L" by (rule fl_of_int [OF Lpos L])
  moreover have "X = 1024 * of_int d / of_int L" by (simp add: X_def D_def q_def)
  ultimately show ?thesis by (simp add: s_def q_def)
qed

lemma resized_side:
  assumes d: "0 < d" and dL: "d \<le> L" and L: "L < 2 ^ 53"
  defines "n \<equiv> max 1 (py_round (fl (fl (of_int d) * fl (1024 / fl (of_int L)))))"
  shows "1 \<le> n \<and> n \<le> 1024 \<and> (d = L \<longrightarrow> n = 1024) \<and>
         \<bar>of_int n - 1024 * of_int d / of_int L\<bar> < (1::rat) \<and>
         (n = 1 \<or> \<bar>of_int n - 1024 * of_int d / of_int L\<bar> \<le> (1 / 2 + 1 / 2 ^ 41 :: rat))"
proof -
  define t where "t = fl (fl (of_int d) * fl (1024 / fl (of_int L)))"
  define X :: rat where "X = 1024 * of_int d / of_int L"
  define r where "r = py_round t"
  have Lpos: "0 < L" using d dL by simp
  have n: "n = max 1 r" by (simp add: n_def r_def t_def)
  have "\<bar>t - X\<bar> \<le> 2049 / 2 ^ 53" unfolding t_def X_def by (rule scaled_err [OF d dL L])
  then have tX: "\<bar>t - X\<bar> \<le> 1 / 2 ^ 41" by simp
  have rt: "\<bar>of_int r - t\<bar> \<le> 1 / 2" unfolding r_def by (rule py_round_err)
  from tX rt have rX: "\<bar>of_int r - X\<bar> \<le> 1 / 2 + 1 / 2 ^ 41" by linarith
  have Xpos: "0 < X" using d Lpos by (simp add: X_def)
  have "of_int d \<le> (of_int L :: rat)" using dL by simp
  then have X1024: "X \<le> 1024" using Lpos by (simp add: X_def divide_le_eq)
  have "(1 / 2 + 1 / 2 ^ 41 :: rat) < 1" by simp
  with rX X1024 have "of_int r < (1025 :: rat)" by linarith
  then have "r < 1025" by (metis of_int_less_iff of_int_numeral)
  then have r1024: "r \<le> 1024" by simp
  have eq: "n = 1024" if "d = L"
  proof -
    from that Lpos have "X = 1024" by (simp add: X_def)
    with tX have "\<bar>t - of_int 1024\<bar> < 1 / 2" by simp
    then have "r = 1024" unfolding r_def by (rule py_round_near)
    then show ?thesis by (simp add: n)
  qed
  have near: "\<bar>of_int n - X\<bar> < 1 \<and> (n = 1 \<or> \<bar>of_int n - X\<bar> \<le> 1 / 2 + 1 / 2 ^ 41)"
  proof (cases "1 \<le> r")
    case True
    then have "n = r" by (simp add: n)
    with rX show ?thesis by simp
  next
    case False
    then have n1: "n = 1" by (simp add: n)
    from False have "of_int r \<le> (0::rat)" by simp
    with rX have "X \<le> 1 / 2 + 1 / 2 ^ 41" by linarith
    with Xpos n1 show ?thesis by simp
  qed
  from n r1024 eq near show ?thesis by (simp add: X_def)
qed

text \<open>
  Claim C4, as the code has it. For every image with sides \<open>0 < w, h < 2\<^sup>5\<^sup>3\<close>:
  both output sides are at least 1, the longest output side is 1024 whatever the size
  of the input (a smaller image is enlarged), and each output side is within one pixel
  of the exactly scaled side \<open>1024 \<sqdot> side / longest\<close>; it is within a half pixel
  (and \<open>2\<^sup>-\<^sup>4\<^sup>1\<close> of float error) of it unless it is the minimum, 1.
\<close>

theorem resize_longest_edge:
  assumes "0 < w" and "0 < h" and "w < 2 ^ 53" and "h < 2 ^ 53"
    and "resize_dims w h = (new_w, new_h)"
  shows "1 \<le> new_w \<and> 1 \<le> new_h \<and> max new_w new_h = 1024 \<and>
         \<bar>of_int new_w - 1024 * of_int w / of_int (max w h)\<bar> < (1::rat) \<and>
         \<bar>of_int new_h - 1024 * of_int h / of_int (max w h)\<bar> < (1::rat) \<and>
         (new_w = 1 \<or> \<bar>of_int new_w - 1024 * of_int w / of_int (max w h)\<bar> \<le> (1 / 2 + 1 / 2 ^ 41 :: rat)) \<and>
         (new_h = 1 \<or> \<bar>of_int new_h - 1024 * of_int h / of_int (max w h)\<bar> \<le> (1 / 2 + 1 / 2 ^ 41 :: rat))"
proof -
  define L where "L = max w h"
  have L: "L < 2 ^ 53" "w \<le> L" "h \<le> L" "L \<noteq> 0" "w = L \<or> h = L"
    using assms(1-4) by (auto simp: L_def)
  have nw: "new_w = max 1 (py_round (fl (fl (of_int w) * fl (1024 / fl (of_int L)))))"
    and nh: "new_h = max 1 (py_round (fl (fl (of_int h) * fl (1024 / fl (of_int L)))))"
    using assms(5) L(4) by (simp_all add: resize_dims_def Let_def L_def)
  note W = resized_side [OF assms(1) L(2) L(1), folded nw]
  note H = resized_side [OF assms(2) L(3) L(1), folded nh]
  from W H L(5) have "max new_w new_h = 1024" by auto
  with W H show ?thesis by (simp add: L_def)
qed

theorem resize_longest_edge_witness:
  "(0::int) < 4000 \<and> (0::int) < 3000 \<and>
   max (fst (resize_dims 4000 3000)) (snd (resize_dims 4000 3000)) = 1024 \<and>
   1 \<le> fst (resize_dims 4000 3000) \<and> 1 \<le> snd (resize_dims 4000 3000)"
  using resize_longest_edge [of 4000 3000 "fst (resize_dims 4000 3000)" "snd (resize_dims 4000 3000)"]
  by simp

text \<open>
  Claim C4, as stated, fails: a 512 x 256 image, whose longest side is below 1024, is
  not left at its size but enlarged to 1024 x 512.
\<close>

theorem resize_enlarges_small_image:
  "max 512 256 < (1024::int) \<and> resize_dims 512 256 = (1024, 512) \<and>
   resize_dims 512 256 \<noteq> (512, 256)"
  by (simp add: resize_example)

end
